theory Spec2Isabelle
  imports Complex_Main "HOL-Library.Multiset"
begin

section \<open>JSON values and the Python operations the handlers apply to them\<close>

text \<open>
  The request bodies of \<^verbatim>\<open>app.py\<close> are parsed JSON. A JSON number is a Python
  \<^verbatim>\<open>int\<close> or \<^verbatim>\<open>float\<close>; both are modelled by exact rationals, so that the
  arithmetic of the source is the arithmetic of \<^typ>\<open>rat\<close> (rounding of binary
  floating point is not modelled). A JSON object is the list of its items, read through
  \<^const>\<open>map_of\<close>.
\<close>

datatype jvalue =
    JNull
  | JBool bool
  | JNum rat
  | JStr string
  | JArr "jvalue list"
  | JObj "(string \<times> jvalue) list"

datatype error =
    ValueError string
  | KeyError string
  | TypeError
  | AttributeError

text \<open>Sequencing of steps that may raise: the first exception ends the computation.\<close>

fun then_do :: "error + 'a \<Rightarrow> ('a \<Rightarrow> error + 'b) \<Rightarrow> error + 'b" where
  "then_do (Inl e) f = Inl e"
| "then_do (Inr x) f = f x"

text \<open>Python's \<^verbatim>\<open>needle in haystack\<close> on two strings: a contiguous substring.\<close>

fun is_prefix :: "string \<Rightarrow> string \<Rightarrow> bool" where
  "is_prefix [] ys = True"
| "is_prefix (x # xs) [] = False"
| "is_prefix (x # xs) (y # ys) = (x = y \<and> is_prefix xs ys)"

fun is_substring :: "string \<Rightarrow> string \<Rightarrow> bool" where
  "is_substring xs [] = (xs = [])"
| "is_substring xs (y # ys) = (is_prefix xs (y # ys) \<or> is_substring xs ys)"

text \<open>
  \<^verbatim>\<open>key in container\<close>: a key of a dict, an element of a list, a substring of a
  string; any other container raises \<^verbatim>\<open>TypeError\<close>.
\<close>

fun py_in :: "string \<Rightarrow> jvalue \<Rightarrow> error + bool" where
  "py_in k (JObj kvs) = Inr (map_of kvs k \<noteq> None)"
| "py_in k (JArr xs) = Inr (JStr k \<in> set xs)"
| "py_in k (JStr s) = Inr (is_substring k s)"
| "py_in k v = Inl TypeError"

text \<open>
  \<^verbatim>\<open>container[key]\<close> with a string key: a dict raises \<^verbatim>\<open>KeyError\<close> on a
  missing key, everything else raises \<^verbatim>\<open>TypeError\<close>.
\<close>

fun py_getitem :: "jvalue \<Rightarrow> string \<Rightarrow> error + jvalue" where
  "py_getitem (JObj kvs) k =
     (case map_of kvs k of None \<Rightarrow> Inl (KeyError k) | Some v \<Rightarrow> Inr v)"
| "py_getitem v k = Inl TypeError"

text \<open>\<^verbatim>\<open>container.get(key, default)\<close>: only a dict has the method.\<close>

fun py_get :: "jvalue \<Rightarrow> string \<Rightarrow> jvalue \<Rightarrow> error + jvalue" where
  "py_get (JObj kvs) k d = Inr (case map_of kvs k of None \<Rightarrow> d | Some v \<Rightarrow> v)"
| "py_get v k d = Inl AttributeError"

text \<open>
  \<^verbatim>\<open>isinstance(v, (int, float))\<close>. Python's \<^verbatim>\<open>bool\<close> is a subclass of
  \<^verbatim>\<open>int\<close>, with \<^verbatim>\<open>True == 1\<close> and \<^verbatim>\<open>False == 0\<close>.
\<close>

fun is_int_or_float :: "jvalue \<Rightarrow> bool" where
  "is_int_or_float (JNum r) = True"
| "is_int_or_float (JBool b) = True"
| "is_int_or_float v = False"

fun as_number :: "jvalue \<Rightarrow> error + rat" where
  "as_number (JNum r) = Inr r"
| "as_number (JBool b) = Inr (if b then 1 else 0)"
| "as_number v = Inl TypeError"

section \<open>Validation of a questionnaire submission\<close>

definition required_fields :: "string list" where
  "required_fields =
     [''analytical_score'', ''creative_score'', ''social_score'', ''technical_score'']"

text \<open>\<^verbatim>\<open>all(field in scores for field in required_fields)\<close>, stopping at the first miss.\<close>

fun all_fields_in :: "string list \<Rightarrow> jvalue \<Rightarrow> error + bool" where
  "all_fields_in [] scores = Inr True"
| "all_fields_in (f # fs) scores =
     (case py_in f scores of
        Inl e \<Rightarrow> Inl e
      | Inr present \<Rightarrow> if present then all_fields_in fs scores else Inr False)"

definition invalid_score_message :: "string \<Rightarrow> string" where
  "invalid_score_message field =
     ''Invalid score for '' @ field @ ''. Must be number between 0 and 10''"

text \<open>
  The loop over the required fields of lines 87 to 90. The test
  \<^verbatim>\<open>isinstance(score, (int, float))\<close> fails exactly for the values that have no
  number, so the comparisons with 0 and 10 are only made on numbers.
\<close>

fun check_scores :: "jvalue \<Rightarrow> string list \<Rightarrow> error + unit" where
  "check_scores scores [] = Inr ()"
| "check_scores scores (f # fs) =
     (case py_getitem scores f of
        Inl e \<Rightarrow> Inl e
      | Inr score \<Rightarrow>
          (case as_number score of
             Inl e \<Rightarrow> Inl (ValueError (invalid_score_message f))
           | Inr r \<Rightarrow>
               if \<not> is_int_or_float score \<or> r < 0 \<or> r > 10
               then Inl (ValueError (invalid_score_message f))
               else check_scores scores fs))"

definition validate_questionnaire_input :: "jvalue \<Rightarrow> error + bool" where
  "validate_questionnaire_input data =
     (case py_in ''scores'' data of
        Inl e \<Rightarrow> Inl e
      | Inr has_scores \<Rightarrow>
          if \<not> has_scores
          then Inl (ValueError ''Missing 'scores' field in questionnaire data'')
          else
            (case py_getitem data ''scores'' of
               Inl e \<Rightarrow> Inl e
             | Inr scores \<Rightarrow>
                 (case all_fields_in required_fields scores of
                    Inl e \<Rightarrow> Inl e
                  | Inr all_present \<Rightarrow>
                      if \<not> all_present
                      then Inl (ValueError ''Missing required fields in scores data'')
                      else
                        (case check_scores scores required_fields of
                           Inl e \<Rightarrow> Inl e
                         | Inr u \<Rightarrow> Inr True))))"

section \<open>The personality classifier\<close>

record dimension_scores =
  ei :: rat
  sn :: rat
  tf :: rat
  jp :: rat

text \<open>The dict \<^verbatim>\<open>{'code': type_code, 'scores': dimension_scores}\<close>.\<close>

record primary_type =
  res_code :: string
  res_scores :: dimension_scores

text \<open>
  \<^verbatim>\<open>get_personality_type\<close> (lines 94 to 128). The lookups and the arithmetic raise in
  the order of the source: \<^verbatim>\<open>social_score\<close>, then \<^verbatim>\<open>creative_score\<close>, then
  both operands of the sum \<^verbatim>\<open>analytical_score + technical_score\<close> are looked up before
  they are added. The handler of the source logs and raises the same exception again.
\<close>

definition get_personality_type :: "jvalue \<Rightarrow> error + (primary_type \<times> dimension_scores)" where
  "get_personality_type scores =
     then_do (py_getitem scores ''social_score'') (\<lambda>v_social.
     then_do (as_number v_social) (\<lambda>social.
     then_do (py_getitem scores ''creative_score'') (\<lambda>v_creative.
     then_do (as_number v_creative) (\<lambda>creative.
     then_do (py_getitem scores ''analytical_score'') (\<lambda>v_analytical.
     then_do (py_getitem scores ''technical_score'') (\<lambda>v_technical.
     then_do (as_number v_analytical) (\<lambda>analytical.
     then_do (as_number v_technical) (\<lambda>technical.
       (let ei_score = social / 10;
            sn_score = creative / 10;
            tf_score = (analytical + technical) / 20;
            jp_score = (technical + creative) / 20;
            type_code =
              (if ei_score \<ge> 1/2 then ''E'' else ''I'') @
              (if sn_score \<ge> 1/2 then ''N'' else ''S'') @
              (if tf_score \<ge> 1/2 then ''T'' else ''F'') @
              (if jp_score \<ge> 1/2 then ''P'' else ''J'');
            dims = \<lparr>ei = ei_score, sn = sn_score, tf = tf_score, jp = jp_score\<rparr>
        in Inr (\<lparr>res_code = type_code, res_scores = dims\<rparr>, dims))))))))))"

section \<open>The store\<close>

text \<open>
  The tables the handlers read and write, each a list of rows in rowid order. The schema
  file is not part of the sources; the columns are the ones the queries name. Weights and
  match strengths are numeric columns.
\<close>

record major =
  major_id :: int
  major_name :: string
  major_description :: string
  career_opportunities :: string
  required_skills :: string
  careers :: string
  skills :: string
  analytical_weight :: rat
  creative_weight :: rat
  social_weight :: rat
  technical_weight :: rat

record major_personality_match =
  mpm_major_id :: int
  mpm_personality_type_id :: int
  match_strength :: rat

record personality_type_row =
  pt_id :: int
  pt_code :: string
  pt_name :: string
  pt_description :: string

record questionnaire_response =
  qr_id :: int
  qr_analytical_score :: jvalue
  qr_creative_score :: jvalue
  qr_social_score :: jvalue
  qr_technical_score :: jvalue
  qr_personality_type_id :: int
  qr_raw_responses :: jvalue

record major_recommendation =
  rec_response_id :: int
  rec_major_id :: int
  rec_match_score :: rat
  rec_analytical_match :: rat
  rec_creative_match :: rat
  rec_social_match :: rat
  rec_technical_match :: rat
  rec_personality_match :: rat

record db =
  majors :: "major list"
  major_personality_matches :: "major_personality_match list"
  personality_types :: "personality_type_row list"
  questionnaire_responses :: "questionnaire_response list"
  major_recommendations :: "major_recommendation list"

text \<open>
  \<^verbatim>\<open>cursor.lastrowid\<close> after an insert: SQLite gives a new row the rowid 1 in an empty
  table and otherwise one more than the largest rowid in use.
\<close>

fun largest :: "int list \<Rightarrow> int" where
  "largest [] = 0"
| "largest [x] = x"
| "largest (x # y # ys) = max x (largest (y # ys))"

definition next_rowid :: "int list \<Rightarrow> int" where
  "next_rowid ids = (if ids = [] then 1 else largest ids + 1)"

section \<open>The type registry\<close>

text \<open>
  \<^verbatim>\<open>get_personality_type_id\<close> (lines 130 to 152): \<^verbatim>\<open>fetchone\<close> gives the first row
  with the code; a row object is truthy, so the test \<^verbatim>\<open>if result\<close> asks whether a row
  was found.
\<close>

definition get_personality_type_id :: "db \<Rightarrow> string \<Rightarrow> db \<times> int" where
  "get_personality_type_id d type_code =
     (case find (\<lambda>r. pt_code r = type_code) (personality_types d) of
        Some result \<Rightarrow> (d, pt_id result)
      | None \<Rightarrow>
          (let lastrowid = next_rowid (map pt_id (personality_types d))
           in (d\<lparr>personality_types := personality_types d @
                    [\<lparr>pt_id = lastrowid, pt_code = type_code,
                      pt_name = ''Type '' @ type_code,
                      pt_description = ''Personality type description''\<rparr>]\<rparr>,
               lastrowid)))"

section \<open>The score normalizer\<close>

text \<open>
  \<^verbatim>\<open>MinMaxScaler().fit_transform(X)\<close> of scikit-learn with the default feature range
  \<open>(0, 1)\<close>. \<open>X\<close> is a matrix whose rows are samples and whose columns are features; the
  scaler works on each column by itself: with \<open>data_min\<close> and \<open>data_max\<close> the least and
  greatest entry of the column, \<open>data_range = data_max - data_min\<close>, a zero range is
  replaced by 1, \<open>scale_ = (1 - 0) / data_range\<close>, \<open>min_ = 0 - data_min * scale_\<close>, and
  every entry \<open>x\<close> of the column becomes \<open>x * scale_ + min_\<close>.
\<close>

text \<open>
  The least and the greatest entry of a column. A column of the matrix of the source is
  never empty; the value at the empty list is never used.
\<close>

fun least :: "rat list \<Rightarrow> rat" where
  "least [] = 0"
| "least [x] = x"
| "least (x # y # ys) = min x (least (y # ys))"

fun greatest :: "rat list \<Rightarrow> rat" where
  "greatest [] = 0"
| "greatest [x] = x"
| "greatest (x # y # ys) = max x (greatest (y # ys))"

definition handle_zeros_in_scale :: "rat \<Rightarrow> rat" where
  "handle_zeros_in_scale data_range = (if data_range = 0 then 1 else data_range)"

definition feature_column :: "rat list list \<Rightarrow> nat \<Rightarrow> rat list" where
  "feature_column X j = map (\<lambda>row. row ! j) X"

definition scale_entry :: "rat list \<Rightarrow> rat \<Rightarrow> rat" where
  "scale_entry col x =
     (let data_min = least col;
          data_max = greatest col;
          data_range = data_max - data_min;
          scale = (1 - 0) / handle_zeros_in_scale data_range;
          min_shift = 0 - data_min * scale
      in x * scale + min_shift)"

definition fit_transform :: "rat list list \<Rightarrow> rat list list" where
  "fit_transform X =
     map (\<lambda>row. map (\<lambda>j. scale_entry (feature_column X j) (row ! j)) [0..<length row]) X"

text \<open>
  Lines 160 to 167: the four scores are put into the one-row matrix
  \<^verbatim>\<open>np.array([[analytical, creative, social, technical]])\<close>, and the first row of the
  transformed matrix is the normalized vector.
\<close>

definition normalize_scores :: "rat \<Rightarrow> rat \<Rightarrow> rat \<Rightarrow> rat \<Rightarrow> rat list" where
  "normalize_scores analytical creative social technical =
     hd (fit_transform [[analytical, creative, social, technical]])"

section \<open>The match engine\<close>

record match =
  match_major_id :: int
  match_name :: string
  match_description :: string
  match_career_opportunities :: string
  match_required_skills :: string
  match_score :: rat
  analytical_match :: rat
  creative_match :: rat
  social_match :: rat
  technical_match :: rat
  personality_match :: rat

text \<open>
  Lines 178 to 187. The guard \<^verbatim>\<open>if personality_type_id\<close> is false for \<^verbatim>\<open>None\<close> and
  for the id 0; the query takes the first row for the pair.
\<close>

definition lookup_personality_match :: "db \<Rightarrow> int option \<Rightarrow> major \<Rightarrow> rat" where
  "lookup_personality_match d personality_type_id m =
     (case personality_type_id of
        None \<Rightarrow> 1/2
      | Some tid \<Rightarrow>
          if tid = 0 then 1/2
          else
            (case find (\<lambda>r. mpm_major_id r = major_id m \<and> mpm_personality_type_id r = tid)
                    (major_personality_matches d) of
               None \<Rightarrow> 1/2
             | Some personality_match_data \<Rightarrow> match_strength personality_match_data))"

text \<open>The body of the loop over the catalog, lines 171 to 207.\<close>

definition major_match :: "db \<Rightarrow> rat list \<Rightarrow> int option \<Rightarrow> major \<Rightarrow> match" where
  "major_match d normalized_scores personality_type_id m =
     (let a = 1 - \<bar>normalized_scores ! 0 - analytical_weight m\<bar>;
          c = 1 - \<bar>normalized_scores ! 1 - creative_weight m\<bar>;
          s = 1 - \<bar>normalized_scores ! 2 - social_weight m\<bar>;
          t = 1 - \<bar>normalized_scores ! 3 - technical_weight m\<bar>;
          p = lookup_personality_match d personality_type_id m;
          overall = (a + c + s + t) / 4 * (7/10) + p * (3/10)
      in \<lparr>match_major_id = major_id m,
          match_name = major_name m,
          match_description = major_description m,
          match_career_opportunities = career_opportunities m,
          match_required_skills = required_skills m,
          match_score = overall,
          analytical_match = a,
          creative_match = c,
          social_match = s,
          technical_match = t,
          personality_match = p\<rparr>)"

text \<open>
  \<^verbatim>\<open>list.sort(key=..., reverse=True)\<close>: CPython reverses the list, sorts it with its
  stable ascending sort, and reverses the result.
\<close>

definition sort_descending :: "('a \<Rightarrow> 'k::linorder) \<Rightarrow> 'a list \<Rightarrow> 'a list" where
  "sort_descending key xs = rev (sort_key key (rev xs))"

text \<open>
  \<^verbatim>\<open>calculate_major_matches\<close> (lines 154 to 211). Building the array looks the four
  scores up in the order analytical, creative, social, technical; the scaler needs numbers.
\<close>

definition calculate_major_matches :: "db \<Rightarrow> jvalue \<Rightarrow> int option \<Rightarrow> error + match list" where
  "calculate_major_matches d scores personality_type_id =
     then_do (py_getitem scores ''analytical_score'') (\<lambda>v_analytical.
     then_do (py_getitem scores ''creative_score'') (\<lambda>v_creative.
     then_do (py_getitem scores ''social_score'') (\<lambda>v_social.
     then_do (py_getitem scores ''technical_score'') (\<lambda>v_technical.
     then_do (as_number v_analytical) (\<lambda>analytical.
     then_do (as_number v_creative) (\<lambda>creative.
     then_do (as_number v_social) (\<lambda>social.
     then_do (as_number v_technical) (\<lambda>technical.
       (let normalized_scores = normalize_scores analytical creative social technical;
            matches = map (major_match d normalized_scores personality_type_id) (majors d)
        in Inr (sort_descending match_score matches))))))))))"

section \<open>Sessions and responses\<close>

text \<open>
  The keys of the session that the handlers use, and the messages flashed into it, each
  with its category.
\<close>

record session =
  sess_user_id :: "int option"
  sess_questionnaire_responses :: "(string \<times> jvalue) list option"
  sess_scores :: "jvalue option"
  sess_flashes :: "(string \<times> string) list"

datatype endpoint = Login | Questionnaire "int option" | Recommendations

text \<open>One entry of the list handed to the recommendations template.\<close>

record displayed_major =
  shown_name :: string
  shown_description :: string
  shown_careers :: "string list"
  shown_skills :: "string list"
  match_percentage :: int
  shown_weights :: "rat \<times> rat \<times> rat \<times> rat"

text \<open>
  What a handler answers: an HTTP redirect, the JSON body \<^verbatim>\<open>{'redirect': url}\<close>, the
  JSON body \<^verbatim>\<open>{'status': 'success', 'response_id': id}\<close>, the JSON body
  \<^verbatim>\<open>{'status': 'error', 'message': msg}\<close> with its HTTP status, the rendered
  recommendations page, or an exception that leaves the handler.
\<close>

datatype response =
    Redirect endpoint
  | JsonRedirect endpoint
  | JsonSuccess int
  | JsonError string nat
  | RenderRecommendations "displayed_major list" "(string \<times> jvalue) list"
  | Unhandled error

text \<open>The decorator \<^verbatim>\<open>login_required\<close> (lines 67 to 74) when the session has no user.\<close>

definition login_redirect :: "session \<Rightarrow> session \<times> response" where
  "login_redirect sess =
     (sess\<lparr>sess_flashes := sess_flashes sess @
              [(''error'', ''Please log in to access this page.'')]\<rparr>,
      Redirect Login)"

section \<open>Submitting a questionnaire\<close>

text \<open>The two \<^verbatim>\<open>except\<close> clauses of lines 334 to 339.\<close>

fun error_response :: "error \<Rightarrow> response" where
  "error_response (ValueError msg) = JsonError msg 500"
| "error_response e = JsonError ''Internal server error'' 500"

definition recommendation_row :: "int \<Rightarrow> match \<Rightarrow> major_recommendation" where
  "recommendation_row response_id m =
     \<lparr>rec_response_id = response_id,
      rec_major_id = match_major_id m,
      rec_match_score = match_score m,
      rec_analytical_match = analytical_match m,
      rec_creative_match = creative_match m,
      rec_social_match = social_match m,
      rec_technical_match = technical_match m,
      rec_personality_match = personality_match m\<rparr>"

text \<open>
  The statements of lines 288 to 333 that follow a successful validation. The registry
  commits its own insert; the response row and the recommendation rows are written on the
  open connection and committed together at line 331, so an exception before that line
  leaves the store as the registry left it.
\<close>

definition store_submission :: "db \<Rightarrow> session \<Rightarrow> jvalue \<Rightarrow> db \<times> session \<times> response" where
  "store_submission d sess data =
     (case then_do (py_getitem data ''scores'') get_personality_type of
        Inl e \<Rightarrow> (d, sess, error_response e)
      | Inr (ptype, dims) \<Rightarrow>
          (let (d1, personality_type_id) = get_personality_type_id d (res_code ptype);
               response_id = next_rowid (map qr_id (questionnaire_responses d1))
           in case
                then_do (py_getitem data ''scores'') (\<lambda>scores.
                then_do (py_getitem scores ''analytical_score'') (\<lambda>v_analytical.
                then_do (py_getitem scores ''creative_score'') (\<lambda>v_creative.
                then_do (py_getitem scores ''social_score'') (\<lambda>v_social.
                then_do (py_getitem scores ''technical_score'') (\<lambda>v_technical.
                then_do (py_get data ''responses'' (JObj [])) (\<lambda>raw.
                then_do (calculate_major_matches d1 scores (Some personality_type_id))
                  (\<lambda>matches.
                     Inr (scores,
                          \<lparr>qr_id = response_id,
                            qr_analytical_score = v_analytical,
                            qr_creative_score = v_creative,
                            qr_social_score = v_social,
                            qr_technical_score = v_technical,
                            qr_personality_type_id = personality_type_id,
                            qr_raw_responses = raw\<rparr>,
                          matches))))))))
              of
                Inl e \<Rightarrow> (d1, sess, error_response e)
              | Inr (scores, row, matches) \<Rightarrow>
                  (d1\<lparr>questionnaire_responses := questionnaire_responses d1 @ [row],
                      major_recommendations := major_recommendations d1 @
                        map (recommendation_row response_id) matches\<rparr>,
                   sess\<lparr>sess_scores := Some scores\<rparr>,
                   JsonSuccess response_id)))"

text \<open>\<^verbatim>\<open>submit_questionnaire\<close> (lines 280 to 339), behind \<^verbatim>\<open>login_required\<close>.\<close>

definition submit_questionnaire :: "db \<Rightarrow> session \<Rightarrow> jvalue \<Rightarrow> db \<times> session \<times> response" where
  "submit_questionnaire d sess data =
     (if sess_user_id sess = None
      then (let (sess1, r) = login_redirect sess in (d, sess1, r))
      else
        (case validate_questionnaire_input data of
           Inl e \<Rightarrow> (d, sess, error_response e)
         | Inr ok \<Rightarrow> store_submission d sess data))"

section \<open>The questionnaire flow\<close>

text \<open>\<^verbatim>\<open>step == n\<close> for a value read from the JSON body.\<close>

fun py_eq_number :: "jvalue \<Rightarrow> rat \<Rightarrow> bool" where
  "py_eq_number (JNum r) n = (r = n)"
| "py_eq_number (JBool b) n = ((if b then 1 else 0) = n)"
| "py_eq_number v n = False"

text \<open>\<^verbatim>\<open>d[key] = value\<close> on a dict: an existing key keeps its place, a new one goes last.\<close>

fun dict_set :: "(string \<times> jvalue) list \<Rightarrow> string \<Rightarrow> jvalue \<Rightarrow> (string \<times> jvalue) list" where
  "dict_set [] k v = [(k, v)]"
| "dict_set ((k', v') # kvs) k v =
     (if k' = k then (k, v) # kvs else (k', v') # dict_set kvs k v)"

text \<open>The accumulator after lines 262 and 263: a missing or empty one is replaced by \<open>{}\<close>.\<close>

definition accumulator :: "session \<Rightarrow> (string \<times> jvalue) list" where
  "accumulator sess =
     (case sess_questionnaire_responses sess of None \<Rightarrow> [] | Some acc \<Rightarrow> acc)"

definition store_answer :: "session \<Rightarrow> string \<Rightarrow> jvalue \<Rightarrow> session" where
  "store_answer sess field v =
     sess\<lparr>sess_questionnaire_responses := Some (dict_set (accumulator sess) field v)\<rparr>"

text \<open>
  \<^verbatim>\<open>questionnaire_next\<close> (lines 253 to 278), behind \<^verbatim>\<open>login_required\<close>. A step
  other than 1 to 4 falls off the end of the function, which Flask turns into a
  \<^verbatim>\<open>TypeError\<close>.
\<close>

definition questionnaire_next :: "session \<Rightarrow> jvalue \<Rightarrow> session \<times> response" where
  "questionnaire_next sess data =
     (case sess_user_id sess of
        None \<Rightarrow> login_redirect sess
      | Some uid \<Rightarrow>
          if uid = 0 then (sess, JsonRedirect Login)
          else
            (case py_get data ''step'' JNull of
               Inl e \<Rightarrow> (sess, Unhandled e)
             | Inr step \<Rightarrow>
                 (let sess1 = sess\<lparr>sess_questionnaire_responses := Some (accumulator sess)\<rparr>;
                      answer = (\<lambda>field. case py_get data field JNull of Inl e \<Rightarrow> JNull | Inr v \<Rightarrow> v)
                  in if py_eq_number step 1
                     then (store_answer sess1 ''analytical'' (answer ''analytical''),
                           JsonRedirect (Questionnaire (Some 2)))
                     else if py_eq_number step 2
                     then (store_answer sess1 ''creative'' (answer ''creative''),
                           JsonRedirect (Questionnaire (Some 3)))
                     else if py_eq_number step 3
                     then (store_answer sess1 ''social'' (answer ''social''),
                           JsonRedirect (Questionnaire (Some 4)))
                     else if py_eq_number step 4
                     then (store_answer sess1 ''technical'' (answer ''technical''),
                           JsonRedirect Recommendations)
                     else (sess1, Unhandled TypeError))))"

section \<open>The recommendations page\<close>










section \<open>Notions used to state the properties\<close>

text \<open>The number a scores object holds under a field, when it has one.\<close>

definition number_at :: "jvalue \<Rightarrow> string \<Rightarrow> rat option" where
  "number_at scores field =
     (case then_do (py_getitem scores field) as_number of
        Inl e \<Rightarrow> None
      | Inr r \<Rightarrow> Some r)"

text \<open>
  The normalization as the specification words it, for comparison with
  \<^const>\<open>normalize_scores\<close>: min-max scaling across the entries of the one vector, and
  the constant \<open>0.5\<close> when all entries are equal.
\<close>

definition spec_min_max_across :: "rat list \<Rightarrow> rat list" where
  "spec_min_max_across xs =
     (if greatest xs = least xs then map (\<lambda>x. 1/2) xs
      else map (\<lambda>x. (x - least xs) / (greatest xs - least xs)) xs)"

text \<open>An error answer whose HTTP status is a client error, 400 to 499.\<close>

fun is_client_error :: "response \<Rightarrow> bool" where
  "is_client_error (JsonError msg status) = (400 \<le> status \<and> status < 500)"
| "is_client_error r = False"

text \<open>
  The table \<^verbatim>\<open>questions\<close> of the handler \<^verbatim>\<open>questionnaire\<close> (lines 221 to 242):
  the field each step asks for.
\<close>

definition question_field :: "int \<Rightarrow> string option" where
  "question_field step =
     (if step = 1 then Some ''analytical''
      else if step = 2 then Some ''creative''
      else if step = 3 then Some ''social''
      else if step = 4 then Some ''technical''
      else None)"

text \<open>
  The states of the questionnaire flow, and the state a response of
  \<^verbatim>\<open>questionnaire_next\<close> sends the client to: the page of a step, or the
  recommendations page when the flow is complete.
\<close>

datatype flow_state = Step int | Complete

fun target_state :: "response \<Rightarrow> flow_state option" where
  "target_state (JsonRedirect (Questionnaire (Some n))) = Some (Step n)"
| "target_state (JsonRedirect Recommendations) = Some Complete"
| "target_state r = None"


text \<open>Sample data for the concrete instances below.\<close>

definition sample_scores :: jvalue where
  "sample_scores =
     JObj [(''analytical_score'', JNum 8), (''creative_score'', JNum 3),
           (''social_score'', JNum 9), (''technical_score'', JNum 6)]"

definition midpoint_scores :: jvalue where
  "midpoint_scores =
     JObj [(''analytical_score'', JNum 5), (''creative_score'', JNum 5),
           (''social_score'', JNum 5), (''technical_score'', JNum 5)]"

definition boolean_submission :: jvalue where
  "boolean_submission =
     JObj [(''scores'',
        JObj [(''analytical_score'', JBool True), (''creative_score'', JBool True),
              (''social_score'', JBool True), (''technical_score'', JBool True)])]"

definition out_of_range_submission :: jvalue where
  "out_of_range_submission =
     JObj [(''scores'',
        JObj [(''analytical_score'', JNum 8), (''creative_score'', JNum 3),
              (''social_score'', JNum 9), (''technical_score'', JNum 11)])]"

definition sample_session :: session where
  "sample_session =
     \<lparr>sess_user_id = Some 1, sess_questionnaire_responses = None,
      sess_scores = None, sess_flashes = []\<rparr>"

definition step_two_answer :: jvalue where
  "step_two_answer = JObj [(''step'', JNum 2), (''creative'', JNum 7)]"

definition session_after_step_one :: session where
  "session_after_step_one =
     \<lparr>sess_user_id = Some 1,
      sess_questionnaire_responses = Some [(''analytical'', JNum 8)],
      sess_scores = None, sess_flashes = []\<rparr>"


definition empty_db :: db where
  "empty_db =
     \<lparr>majors = [], major_personality_matches = [], personality_types = [],
      questionnaire_responses = [], major_recommendations = []\<rparr>"

definition sample_major :: "int \<Rightarrow> string \<Rightarrow> rat \<Rightarrow> major" where
  "sample_major i n w =
     \<lparr>major_id = i, major_name = n, major_description = ''About '' @ n,
      career_opportunities = ''Analyst,Engineer'', required_skills = ''Logic,Patience'',
      careers = ''Analyst,Engineer'', skills = ''Logic,Patience'',
      analytical_weight = w, creative_weight = w, social_weight = w, technical_weight = w\<rparr>"

definition sample_db :: db where
  "sample_db =
     \<lparr>majors = [sample_major 1 ''Computer Science'' (1/2),
                sample_major 2 ''Fine Arts'' 0,
                sample_major 3 ''Nursing'' (1/2)],
      major_personality_matches =
        [\<lparr>mpm_major_id = 1, mpm_personality_type_id = 1, match_strength = 9/10\<rparr>,
         \<lparr>mpm_major_id = 1, mpm_personality_type_id = 0, match_strength = 9/10\<rparr>],
      personality_types = [], questionnaire_responses = [], major_recommendations = []\<rparr>"

text \<open>The four per-dimension matches of a match, in the order of the dimensions.\<close>

definition dimension_matches :: "match \<Rightarrow> rat list" where
  "dimension_matches x =
     [analytical_match x, creative_match x, social_match x, technical_match x]"

text \<open>
  Two majors whose weights are a user's vector on the scale of the weights: the scores
  5, 5, 5, 5 divided by 10, and the scores 8, 3, 9, 6 scaled min-max across the vector.
\<close>

definition tenth_scaled_major :: major where
  "tenth_scaled_major =
     \<lparr>major_id = 1, major_name = ''Economics'', major_description = ''About Economics'',
      career_opportunities = ''Analyst'', required_skills = ''Logic'',
      careers = ''Analyst'', skills = ''Logic'',
      analytical_weight = 1/2, creative_weight = 1/2,
      social_weight = 1/2, technical_weight = 1/2\<rparr>"

definition min_max_scaled_major :: major where
  "min_max_scaled_major =
     \<lparr>major_id = 1, major_name = ''Education'', major_description = ''About Education'',
      career_opportunities = ''Teacher'', required_skills = ''Patience'',
      careers = ''Teacher'', skills = ''Patience'',
      analytical_weight = 5/6, creative_weight = 0,
      social_weight = 1, technical_weight = 1/2\<rparr>"

definition single_major_db :: "major \<Rightarrow> db" where
  "single_major_db m =
     \<lparr>majors = [m], major_personality_matches = [], personality_types = [],
      questionnaire_responses = [], major_recommendations = []\<rparr>"

section \<open>Properties of the score normalizer\<close>

lemma scale_entry_single: "scale_entry [x] x = 0"
  by (simp add: scale_entry_def handle_zeros_in_scale_def)

text \<open>
  The matrix has one row, so every column holds one entry, which is both the least and
  the greatest of its column: each score is scaled against itself.
\<close>

lemma normalize_scores_zero: "normalize_scores a c s t = [0, 0, 0, 0]"
  by (simp add: normalize_scores_def fit_transform_def feature_column_def
      scale_entry_single upt_rec)

lemma handle_zeros_in_scale_nonzero: "handle_zeros_in_scale r \<noteq> 0"
  by (simp add: handle_zeros_in_scale_def)

text \<open>
  C1, as the code has it. When the four raw scores are equal, the normalization step of
  \<^verbatim>\<open>calculate_major_matches\<close> returns the constant vector whose every component is 0
  (not 0.5), and it never divides by zero: the divisor of every column is the range of the
  column with a zero range replaced by 1.
\<close>

theorem normalizer_equal_scores:
  assumes "a = c" and "c = s" and "s = t"
  shows "normalize_scores a c s t = [0, 0, 0, 0] \<and>
         (\<forall>col. handle_zeros_in_scale (greatest col - least col) \<noteq> 0)"
  by (simp add: normalize_scores_zero handle_zeros_in_scale_nonzero)

theorem normalizer_equal_scores_witness:
  "(5::rat) = 5 \<and> normalize_scores 5 5 5 5 = [0, 0, 0, 0] \<and>
   (\<forall>col. handle_zeros_in_scale (greatest col - least col) \<noteq> 0)"
  using normalizer_equal_scores [of 5 5 5 5] by simp

text \<open>
  C1 as the claim states it fails: for the equal scores 5, 5, 5, 5 the code returns the
  zero vector where the claim promises 0.5 in every component, and for the scores
  8, 3, 9, 6 it returns the zero vector where min-max scaling across the vector gives
  5/6, 0, 1, 1/2.
\<close>

theorem normalizer_counterexample:
  "normalize_scores 5 5 5 5 = [0, 0, 0, 0] \<and>
   spec_min_max_across [5, 5, 5, 5] = [1/2, 1/2, 1/2, 1/2] \<and>
   normalize_scores 8 3 9 6 = [0, 0, 0, 0] \<and>
   spec_min_max_across [8, 3, 9, 6] = [5/6, 0, 1, 1/2]"
  by (simp add: normalize_scores_def fit_transform_def feature_column_def scale_entry_def
      handle_zeros_in_scale_def upt_rec spec_min_max_across_def)

section \<open>Properties of the personality classifier\<close>

lemma number_atD:
  "number_at scores field = Some r \<Longrightarrow>
     \<exists>v. py_getitem scores field = Inr v \<and> as_number v = Inr r"
  unfolding number_at_def
  by (cases "py_getitem scores field") (auto split: sum.splits)

text \<open>
  C3. For every scores object that holds a number under each of the four fields,
  \<^verbatim>\<open>get_personality_type\<close> returns the axis values \<open>EI = social / 10\<close>,
  \<open>SN = creative / 10\<close>, \<open>TF = (analytical + technical) / 20\<close> and
  \<open>JP = (technical + creative) / 20\<close>, and the code whose letters, in the order E/I, N/S,
  T/F, J/P, are the high letters E, N, T, P exactly where the axis value is at least 0.5.
  The scores 8, 3, 9, 6 give the code ESTJ.
\<close>

theorem get_personality_type_axes_and_code:
  "(\<forall>scores a c s t.
      number_at scores ''analytical_score'' = Some a \<and>
      number_at scores ''creative_score'' = Some c \<and>
      number_at scores ''social_score'' = Some s \<and>
      number_at scores ''technical_score'' = Some t \<longrightarrow>
      get_personality_type scores =
        Inr (\<lparr>res_code =
                [if s / 10 \<ge> 1/2 then CHR ''E'' else CHR ''I'',
                 if c / 10 \<ge> 1/2 then CHR ''N'' else CHR ''S'',
                 if (a + t) / 20 \<ge> 1/2 then CHR ''T'' else CHR ''F'',
                 if (t + c) / 20 \<ge> 1/2 then CHR ''P'' else CHR ''J''],
              res_scores =
                \<lparr>ei = s / 10, sn = c / 10, tf = (a + t) / 20, jp = (t + c) / 20\<rparr>\<rparr>,
             \<lparr>ei = s / 10, sn = c / 10, tf = (a + t) / 20, jp = (t + c) / 20\<rparr>)) \<and>
   map_sum id (res_code \<circ> fst) (get_personality_type sample_scores) = Inr ''ESTJ''"
proof (intro conjI allI impI)
  fix scores a c s t
  assume h: "number_at scores ''analytical_score'' = Some a \<and>
      number_at scores ''creative_score'' = Some c \<and>
      number_at scores ''social_score'' = Some s \<and>
      number_at scores ''technical_score'' = Some t"
  from h obtain va where va:
    "py_getitem scores ''analytical_score'' = Inr va" "as_number va = Inr a"
    using number_atD by blast
  from h obtain vc where vc:
    "py_getitem scores ''creative_score'' = Inr vc" "as_number vc = Inr c"
    using number_atD by blast
  from h obtain vs where vs:
    "py_getitem scores ''social_score'' = Inr vs" "as_number vs = Inr s"
    using number_atD by blast
  from h obtain vt where vt:
    "py_getitem scores ''technical_score'' = Inr vt" "as_number vt = Inr t"
    using number_atD by blast
  show "get_personality_type scores =
        Inr (\<lparr>res_code =
                [if s / 10 \<ge> 1/2 then CHR ''E'' else CHR ''I'',
                 if c / 10 \<ge> 1/2 then CHR ''N'' else CHR ''S'',
                 if (a + t) / 20 \<ge> 1/2 then CHR ''T'' else CHR ''F'',
                 if (t + c) / 20 \<ge> 1/2 then CHR ''P'' else CHR ''J''],
              res_scores =
                \<lparr>ei = s / 10, sn = c / 10, tf = (a + t) / 20, jp = (t + c) / 20\<rparr>\<rparr>,
             \<lparr>ei = s / 10, sn = c / 10, tf = (a + t) / 20, jp = (t + c) / 20\<rparr>)"
    unfolding get_personality_type_def
    by (simp add: va vc vs vt Let_def)
next
  show "map_sum id (res_code \<circ> fst) (get_personality_type sample_scores) = Inr ''ESTJ''"
    by (simp add: get_personality_type_def sample_scores_def Let_def)
qed

text \<open>The instance at the scores 5, 5, 5, 5: every axis is exactly 0.5 and takes its high letter.\<close>

theorem get_personality_type_axes_and_code_witness:
  "number_at midpoint_scores ''analytical_score'' = Some 5 \<and>
   number_at midpoint_scores ''creative_score'' = Some 5 \<and>
   number_at midpoint_scores ''social_score'' = Some 5 \<and>
   number_at midpoint_scores ''technical_score'' = Some 5 \<and>
   get_personality_type midpoint_scores =
     Inr (\<lparr>res_code = ''ENTP'',
           res_scores = \<lparr>ei = 1/2, sn = 1/2, tf = 1/2, jp = 1/2\<rparr>\<rparr>,
          \<lparr>ei = 1/2, sn = 1/2, tf = 1/2, jp = 1/2\<rparr>)"
  using get_personality_type_axes_and_code
    [THEN conjunct1, rule_format, of midpoint_scores 5 5 5 5]
  by (simp add: number_at_def midpoint_scores_def)

section \<open>Properties of the validation\<close>

text \<open>
  C10. A submission whose four score fields are JSON booleans passes
  \<^verbatim>\<open>validate_questionnaire_input\<close>, because a Python \<^verbatim>\<open>bool\<close> is an
  \<^verbatim>\<open>int\<close>; for a logged-in session \<^verbatim>\<open>submit_questionnaire\<close> then answers with
  success, not with an error.
\<close>

theorem validation_accepts_booleans:
  "validate_questionnaire_input
     (JObj [(''scores'',
        JObj [(''analytical_score'', JBool b1), (''creative_score'', JBool b2),
              (''social_score'', JBool b3), (''technical_score'', JBool b4)])]) = Inr True \<and>
   (sess_user_id sess \<noteq> None \<longrightarrow>
      (\<exists>d' sess' rid.
         submit_questionnaire d sess
           (JObj [(''scores'',
              JObj [(''analytical_score'', JBool b1), (''creative_score'', JBool b2),
                    (''social_score'', JBool b3), (''technical_score'', JBool b4)])])
         = (d', sess', JsonSuccess rid)))"
proof -
  have v: "validate_questionnaire_input
     (JObj [(''scores'',
        JObj [(''analytical_score'', JBool b1), (''creative_score'', JBool b2),
              (''social_score'', JBool b3), (''technical_score'', JBool b4)])]) = Inr True"
    by (simp add: validate_questionnaire_input_def required_fields_def)
  show ?thesis
    by (auto simp add: v submit_questionnaire_def store_submission_def
        get_personality_type_def calculate_major_matches_def Let_def split: prod.splits)
qed

theorem validation_accepts_booleans_witness:
  "sess_user_id sample_session \<noteq> None \<and>
   validate_questionnaire_input boolean_submission = Inr True \<and>
   (\<exists>d' sess' rid.
      submit_questionnaire empty_db sample_session boolean_submission
        = (d', sess', JsonSuccess rid))"
  using validation_accepts_booleans
    [of True True True True sample_session empty_db]
  by (simp add: sample_session_def boolean_submission_def)

section \<open>Properties of the match engine\<close>

lemma sort_descending_sorted:
  "sorted_wrt (\<lambda>x y. key x \<ge> key y) (sort_descending key xs)"
proof -
  have "sorted (map key (sort_key key (rev xs)))" by (rule sorted_sort_key)
  then have "sorted_wrt (\<lambda>x y. key x \<le> key y) (sort_key key (rev xs))"
    by (simp add: sorted_map)
  then show ?thesis
    unfolding sort_descending_def by (simp add: sorted_wrt_rev)
qed

lemma sort_descending_stable:
  "filter (\<lambda>y. key y = k) (sort_descending key xs) = filter (\<lambda>y. key y = k) xs"
proof -
  have "filter (\<lambda>y. key y = k) (sort_descending key xs)
          = rev (filter (\<lambda>y. key y = k) (sort_key key (rev xs)))"
    unfolding sort_descending_def by (simp add: rev_filter)
  also have "\<dots> = rev (filter (\<lambda>y. key y = k) (rev xs))"
    by (simp only: sort_key_stable)
  also have "\<dots> = filter (\<lambda>y. key y = k) xs"
    by (simp add: rev_filter)
  finally show ?thesis .
qed

lemma mset_sort_descending: "mset (sort_descending key xs) = mset xs"
  by (simp add: sort_descending_def)

lemma length_sort_descending: "length (sort_descending key xs) = length xs"
  by (simp add: sort_descending_def)

lemma set_sort_descending: "set (sort_descending key xs) = set xs"
  by (simp add: sort_descending_def)

lemma calculate_major_matches_numbers:
  assumes "number_at scores ''analytical_score'' = Some a"
      and "number_at scores ''creative_score'' = Some c"
      and "number_at scores ''social_score'' = Some s"
      and "number_at scores ''technical_score'' = Some t"
  shows "calculate_major_matches d scores tid =
           Inr (sort_descending match_score
                  (map (major_match d (normalize_scores a c s t) tid) (majors d)))"
proof -
  from assms obtain va vc vs vt where
    "py_getitem scores ''analytical_score'' = Inr va" "as_number va = Inr a"
    "py_getitem scores ''creative_score'' = Inr vc" "as_number vc = Inr c"
    "py_getitem scores ''social_score'' = Inr vs" "as_number vs = Inr s"
    "py_getitem scores ''technical_score'' = Inr vt" "as_number vt = Inr t"
    by (meson number_atD)
  then show ?thesis
    by (simp add: calculate_major_matches_def Let_def)
qed

text \<open>
  C4. For every catalog, the empty one included, and every scores object with four numeric
  fields, \<^verbatim>\<open>calculate_major_matches\<close> returns a list with one match per catalog entry,
  sorted non-increasing by \<open>match_score\<close>, in which the matches of equal score keep their
  catalog order; for the empty catalog it returns the empty list.
\<close>

theorem matches_cover_catalog_sorted_stable:
  assumes "number_at scores ''analytical_score'' = Some a"
      and "number_at scores ''creative_score'' = Some c"
      and "number_at scores ''social_score'' = Some s"
      and "number_at scores ''technical_score'' = Some t"
  shows "\<exists>ms. calculate_major_matches d scores tid = Inr ms \<and>
           length ms = length (majors d) \<and>
           mset (map match_major_id ms) = mset (map major_id (majors d)) \<and>
           sorted_wrt (\<lambda>x y. match_score x \<ge> match_score y) ms \<and>
           (\<forall>k. filter (\<lambda>x. match_score x = k) ms =
                filter (\<lambda>x. match_score x = k)
                  (map (major_match d (normalize_scores a c s t) tid) (majors d))) \<and>
           (majors d = [] \<longrightarrow> ms = [])"
proof -
  let ?unsorted = "map (major_match d (normalize_scores a c s t) tid) (majors d)"
  let ?ms = "sort_descending match_score ?unsorted"
  have r: "calculate_major_matches d scores tid = Inr ?ms"
    using assms by (rule calculate_major_matches_numbers)
  have ids: "map match_major_id ?unsorted = map major_id (majors d)"
    by (simp add: major_match_def Let_def)
  have "mset (map match_major_id ?ms) = mset (map match_major_id ?unsorted)"
    by (simp only: mset_map mset_sort_descending)
  then have m: "mset (map match_major_id ?ms) = mset (map major_id (majors d))"
    by (simp only: ids)
  have l: "length ?ms = length (majors d)"
    by (simp add: length_sort_descending)
  have e: "majors d = [] \<longrightarrow> ?ms = []"
    by (simp add: sort_descending_def)
  show ?thesis
    using r m l e sort_descending_sorted [of match_score ?unsorted]
      sort_descending_stable [of match_score _ ?unsorted]
    by blast
qed

theorem matches_cover_catalog_sorted_stable_witness:
  "number_at sample_scores ''analytical_score'' = Some 8 \<and>
   number_at sample_scores ''creative_score'' = Some 3 \<and>
   number_at sample_scores ''social_score'' = Some 9 \<and>
   number_at sample_scores ''technical_score'' = Some 6 \<and>
   (\<exists>ms. calculate_major_matches sample_db sample_scores None = Inr ms \<and>
           length ms = length (majors sample_db) \<and>
           mset (map match_major_id ms) = mset (map major_id (majors sample_db)) \<and>
           sorted_wrt (\<lambda>x y. match_score x \<ge> match_score y) ms \<and>
           (\<forall>k. filter (\<lambda>x. match_score x = k) ms =
                filter (\<lambda>x. match_score x = k)
                  (map (major_match sample_db (normalize_scores 8 3 9 6) None) (majors sample_db))) \<and>
           (majors sample_db = [] \<longrightarrow> ms = []))"
  using matches_cover_catalog_sorted_stable [of sample_scores 8 3 9 6 sample_db None]
  by (simp add: number_at_def sample_scores_def)


lemma lookup_personality_match_found:
  "t \<noteq> 0 \<Longrightarrow>
   find (\<lambda>r. mpm_major_id r = major_id m \<and> mpm_personality_type_id r = t)
     (major_personality_matches d) = Some r \<Longrightarrow>
   lookup_personality_match d (Some t) m = match_strength r"
  by (simp add: lookup_personality_match_def)

lemma lookup_personality_match_absent:
  "\<forall>r \<in> set (major_personality_matches d).
      \<not> (mpm_major_id r = major_id m \<and> mpm_personality_type_id r = t) \<Longrightarrow>
   lookup_personality_match d (Some t) m = 1/2"
proof -
  assume "\<forall>r \<in> set (major_personality_matches d).
      \<not> (mpm_major_id r = major_id m \<and> mpm_personality_type_id r = t)"
  then have "find (\<lambda>r. mpm_major_id r = major_id m \<and> mpm_personality_type_id r = t)
     (major_personality_matches d) = None"
    by (simp add: find_None_iff)
  then show ?thesis
    by (simp add: lookup_personality_match_def)
qed

lemma lookup_personality_match_omitted:
  "tid = None \<or> tid = Some 0 \<Longrightarrow> lookup_personality_match d tid m = 1/2"
  by (auto simp add: lookup_personality_match_def)

text \<open>
  C2, as the code has it. For every catalog entry and every normalized user vector, each
  per-dimension match is 1 minus the absolute difference between the normalized user value
  and the catalog weight; the personality match is the strength of the first affinity row
  for the major and the type when a type id is given, is not 0, and such a row exists, and
  0.5 otherwise, in particular for every entry when the type id is omitted or is 0; the
  overall score is 0.7 times the average of the four dimension matches plus 0.3 times the
  personality match. The list \<^verbatim>\<open>calculate_major_matches\<close> returns consists of these
  matches, computed from the normalized scores.
\<close>

theorem major_match_components:
  "analytical_match (major_match d n tid m) = 1 - \<bar>n ! 0 - analytical_weight m\<bar> \<and>
   creative_match (major_match d n tid m) = 1 - \<bar>n ! 1 - creative_weight m\<bar> \<and>
   social_match (major_match d n tid m) = 1 - \<bar>n ! 2 - social_weight m\<bar> \<and>
   technical_match (major_match d n tid m) = 1 - \<bar>n ! 3 - technical_weight m\<bar> \<and>
   (\<forall>t r. tid = Some t \<and> t \<noteq> 0 \<and>
      find (\<lambda>r. mpm_major_id r = major_id m \<and> mpm_personality_type_id r = t)
        (major_personality_matches d) = Some r \<longrightarrow>
      personality_match (major_match d n tid m) = match_strength r) \<and>
   (\<forall>t. tid = Some t \<and>
      (\<forall>r \<in> set (major_personality_matches d).
         \<not> (mpm_major_id r = major_id m \<and> mpm_personality_type_id r = t)) \<longrightarrow>
      personality_match (major_match d n tid m) = 1/2) \<and>
   (tid = None \<or> tid = Some 0 \<longrightarrow> personality_match (major_match d n tid m) = 1/2) \<and>
   match_score (major_match d n tid m) =
     7/10 * ((analytical_match (major_match d n tid m) +
              creative_match (major_match d n tid m) +
              social_match (major_match d n tid m) +
              technical_match (major_match d n tid m)) / 4) +
     3/10 * personality_match (major_match d n tid m) \<and>
   (\<forall>scores a c s t.
      number_at scores ''analytical_score'' = Some a \<and>
      number_at scores ''creative_score'' = Some c \<and>
      number_at scores ''social_score'' = Some s \<and>
      number_at scores ''technical_score'' = Some t \<longrightarrow>
      (\<exists>ms. calculate_major_matches d scores tid = Inr ms \<and>
            set ms = major_match d (normalize_scores a c s t) tid ` set (majors d)))"
proof -
  have p: "personality_match (major_match d n tid m) = lookup_personality_match d tid m"
    by (simp add: major_match_def Let_def)
  have dims:
    "analytical_match (major_match d n tid m) = 1 - \<bar>n ! 0 - analytical_weight m\<bar>"
    "creative_match (major_match d n tid m) = 1 - \<bar>n ! 1 - creative_weight m\<bar>"
    "social_match (major_match d n tid m) = 1 - \<bar>n ! 2 - social_weight m\<bar>"
    "technical_match (major_match d n tid m) = 1 - \<bar>n ! 3 - technical_weight m\<bar>"
    by (simp_all add: major_match_def Let_def)
  have found: "\<forall>t r. tid = Some t \<and> t \<noteq> 0 \<and>
      find (\<lambda>r. mpm_major_id r = major_id m \<and> mpm_personality_type_id r = t)
        (major_personality_matches d) = Some r \<longrightarrow>
      personality_match (major_match d n tid m) = match_strength r"
    using lookup_personality_match_found p by auto
  have absent: "\<forall>t. tid = Some t \<and>
      (\<forall>r \<in> set (major_personality_matches d).
         \<not> (mpm_major_id r = major_id m \<and> mpm_personality_type_id r = t)) \<longrightarrow>
      personality_match (major_match d n tid m) = 1/2"
    using lookup_personality_match_absent p by auto
  have omitted: "tid = None \<or> tid = Some 0 \<longrightarrow> personality_match (major_match d n tid m) = 1/2"
    using lookup_personality_match_omitted p by auto
  have overall: "match_score (major_match d n tid m) =
     7/10 * ((analytical_match (major_match d n tid m) +
              creative_match (major_match d n tid m) +
              social_match (major_match d n tid m) +
              technical_match (major_match d n tid m)) / 4) +
     3/10 * personality_match (major_match d n tid m)"
    by (simp add: major_match_def Let_def field_simps)
  have engine: "\<forall>scores a c s t.
      number_at scores ''analytical_score'' = Some a \<and>
      number_at scores ''creative_score'' = Some c \<and>
      number_at scores ''social_score'' = Some s \<and>
      number_at scores ''technical_score'' = Some t \<longrightarrow>
      (\<exists>ms. calculate_major_matches d scores tid = Inr ms \<and>
            set ms = major_match d (normalize_scores a c s t) tid ` set (majors d))"
    by (simp add: calculate_major_matches_numbers set_sort_descending)
  show ?thesis
    by (intro conjI dims found absent omitted overall engine)
qed

theorem major_match_components_witness:
  "(1::int) \<noteq> 0 \<and>
   find (\<lambda>r. mpm_major_id r = major_id (sample_major 1 ''Computer Science'' (1/2)) \<and>
              mpm_personality_type_id r = 1)
     (major_personality_matches sample_db) =
     Some \<lparr>mpm_major_id = 1, mpm_personality_type_id = 1, match_strength = 9/10\<rparr> \<and>
   analytical_match
     (major_match sample_db [0, 0, 0, 0] (Some 1) (sample_major 1 ''Computer Science'' (1/2)))
     = 1/2 \<and>
   personality_match
     (major_match sample_db [0, 0, 0, 0] (Some 1) (sample_major 1 ''Computer Science'' (1/2)))
     = 9/10"
proof -
  let ?m = "sample_major 1 ''Computer Science'' (1/2)"
  let ?row = "\<lparr>mpm_major_id = 1, mpm_personality_type_id = 1, match_strength = 9/10\<rparr>"
  note inst = major_match_components [of sample_db "[0, 0, 0, 0]" "Some 1" ?m]
  have f: "find (\<lambda>r. mpm_major_id r = major_id ?m \<and> mpm_personality_type_id r = 1)
             (major_personality_matches sample_db) = Some ?row"
    by (simp add: sample_db_def sample_major_def)
  from inst have "\<forall>t r. Some (1::int) = Some t \<and> t \<noteq> 0 \<and>
      find (\<lambda>r. mpm_major_id r = major_id ?m \<and> mpm_personality_type_id r = t)
        (major_personality_matches sample_db) = Some r \<longrightarrow>
      personality_match (major_match sample_db [0, 0, 0, 0] (Some 1) ?m) = match_strength r"
    by (elim conjE)
  with f have p:
    "personality_match (major_match sample_db [0, 0, 0, 0] (Some 1) ?m) = match_strength ?row"
    by simp
  from inst have a:
    "analytical_match (major_match sample_db [0, 0, 0, 0] (Some 1) ?m)
       = 1 - \<bar>[0, 0, 0, 0] ! 0 - analytical_weight ?m\<bar>"
    by (elim conjE)
  from a have a': "analytical_match (major_match sample_db [0, 0, 0, 0] (Some 1) ?m) = 1/2"
    by (simp add: sample_major_def)
  from p have p': "personality_match (major_match sample_db [0, 0, 0, 0] (Some 1) ?m) = 9/10"
    by simp
  show ?thesis using f a' p' by simp
qed

text \<open>
  C2 as the claim states it fails at the type id 0: the guard
  \<^verbatim>\<open>if personality_type_id\<close> treats it as omitted, so the affinity row of strength 0.9
  for major 1 and type 0 is not looked up and every personality match is 0.5.
\<close>

theorem personality_match_zero_id_counterexample:
  "major_id (majors sample_db ! 0) = 1 \<and>
   major_personality_matches sample_db ! 1 =
     \<lparr>mpm_major_id = 1, mpm_personality_type_id = 0, match_strength = 9/10\<rparr> \<and>
   map_sum id (map match_major_id)
     (calculate_major_matches sample_db sample_scores (Some 0)) = Inr [2, 1, 3] \<and>
   map_sum id (map personality_match)
     (calculate_major_matches sample_db sample_scores (Some 0)) = Inr [1/2, 1/2, 1/2]"
  by (simp add: sample_db_def sample_major_def sample_scores_def calculate_major_matches_def
      normalize_scores_zero major_match_def lookup_personality_match_def sort_descending_def
      Let_def)

text \<open>
  C7. The claim asks that a major whose weight vector equals the user's score vector,
  scaled consistently, gets four per-dimension matches equal to 1. The code misses this:
  the scores reach the scaler as a one-row matrix (lines 161 to 167), so the normalized
  vector is zero whatever the scores are, and each match is 1 minus the weight. For the
  scores 5, 5, 5, 5 and the major whose weights are these scores divided by 10, the four
  matches are 0.5; for the scores 8, 3, 9, 6 and the major whose weights are these scores
  scaled min-max across the vector, they are 1/6, 1, 0 and 1/2.
\<close>

theorem equal_vector_matches_code_result:
  "[analytical_weight tenth_scaled_major, creative_weight tenth_scaled_major,
    social_weight tenth_scaled_major, technical_weight tenth_scaled_major] =
     [5/10, 5/10, 5/10, 5/10] \<and>
   map_sum id (map dimension_matches)
     (calculate_major_matches (single_major_db tenth_scaled_major) midpoint_scores None) =
     Inr [[1/2, 1/2, 1/2, 1/2]] \<and>
   [analytical_weight min_max_scaled_major, creative_weight min_max_scaled_major,
    social_weight min_max_scaled_major, technical_weight min_max_scaled_major] =
     spec_min_max_across [8, 3, 9, 6] \<and>
   map_sum id (map dimension_matches)
     (calculate_major_matches (single_major_db min_max_scaled_major) sample_scores None) =
     Inr [[1/6, 1, 0, 1/2]]"
  by (simp add: tenth_scaled_major_def min_max_scaled_major_def single_major_db_def
      midpoint_scores_def sample_scores_def spec_min_max_across_def dimension_matches_def
      calculate_major_matches_def normalize_scores_zero major_match_def
      lookup_personality_match_def sort_descending_def Let_def)

section \<open>Properties of the type registry\<close>

lemma find_append_new:
  "find P xs = None \<Longrightarrow> P y \<Longrightarrow> find P (xs @ [y]) = Some y"
  by (induction xs) (auto split: if_splits)

text \<open>
  C6. \<^verbatim>\<open>get_personality_type_id\<close> returns the id of the first registry row with the
  code and leaves the store unchanged when such a row exists; otherwise it appends exactly
  one row, with the code, the placeholder name and the placeholder description, and returns
  the id of that row. Two calls in sequence with the same code return the same id, the
  second call changes nothing, and the two calls together create one row when the code was
  new and none when it was known.
\<close>

theorem registry_get_or_create:
  "(\<forall>r. find (\<lambda>r. pt_code r = c) (personality_types d) = Some r \<longrightarrow>
        get_personality_type_id d c = (d, pt_id r)) \<and>
   (find (\<lambda>r. pt_code r = c) (personality_types d) = None \<longrightarrow>
      (\<exists>new_id.
         get_personality_type_id d c =
           (d\<lparr>personality_types := personality_types d @
                [\<lparr>pt_id = new_id, pt_code = c, pt_name = ''Type '' @ c,
                  pt_description = ''Personality type description''\<rparr>]\<rparr>,
            new_id))) \<and>
   (\<forall>d1 id1 d2 id2.
      get_personality_type_id d c = (d1, id1) \<and>
      get_personality_type_id d1 c = (d2, id2) \<longrightarrow>
      id2 = id1 \<and> d2 = d1 \<and>
      length (personality_types d2) =
        length (personality_types d) +
          (if \<exists>r \<in> set (personality_types d). pt_code r = c then 0 else 1))"
proof -
  have found: "\<forall>r. find (\<lambda>r. pt_code r = c) (personality_types d) = Some r \<longrightarrow>
        get_personality_type_id d c = (d, pt_id r)"
    by (simp add: get_personality_type_id_def)
  have created: "find (\<lambda>r. pt_code r = c) (personality_types d) = None \<longrightarrow>
      (\<exists>new_id.
         get_personality_type_id d c =
           (d\<lparr>personality_types := personality_types d @
                [\<lparr>pt_id = new_id, pt_code = c, pt_name = ''Type '' @ c,
                  pt_description = ''Personality type description''\<rparr>]\<rparr>,
            new_id))"
    by (simp add: get_personality_type_id_def Let_def)
  have twice: "\<forall>d1 id1 d2 id2.
      get_personality_type_id d c = (d1, id1) \<and>
      get_personality_type_id d1 c = (d2, id2) \<longrightarrow>
      id2 = id1 \<and> d2 = d1 \<and>
      length (personality_types d2) =
        length (personality_types d) +
          (if \<exists>r \<in> set (personality_types d). pt_code r = c then 0 else 1)"
  proof (intro allI impI)
  fix d1 id1 d2 id2
    assume calls: "get_personality_type_id d c = (d1, id1) \<and>
        get_personality_type_id d1 c = (d2, id2)"
    show "id2 = id1 \<and> d2 = d1 \<and>
        length (personality_types d2) =
          length (personality_types d) +
            (if \<exists>r \<in> set (personality_types d). pt_code r = c then 0 else 1)"
    proof (cases "find (\<lambda>r. pt_code r = c) (personality_types d)")
      case None
      from calls have c1: "get_personality_type_id d c = (d1, id1)"
        and c2: "get_personality_type_id d1 c = (d2, id2)"
        by simp_all
      let ?row = "\<lparr>pt_id = next_rowid (map pt_id (personality_types d)), pt_code = c,
                    pt_name = ''Type '' @ c,
                    pt_description = ''Personality type description''\<rparr>"
      from None c1 have d1: "d1 = d\<lparr>personality_types := personality_types d @ [?row]\<rparr>"
        and id1: "id1 = next_rowid (map pt_id (personality_types d))"
        by (auto simp add: get_personality_type_id_def Let_def)
      have "find (\<lambda>r. pt_code r = c) (personality_types d1) = Some ?row"
        using None by (simp add: d1 find_append_new)
      with c2 have "d2 = d1" "id2 = pt_id ?row"
        by (auto simp add: get_personality_type_id_def)
      moreover have "\<not> (\<exists>r \<in> set (personality_types d). pt_code r = c)"
        using None by (simp add: find_None_iff)
      ultimately show ?thesis
        by (simp add: d1 id1)
    next
      case (Some r)
      from calls have c1: "get_personality_type_id d c = (d1, id1)"
        and c2: "get_personality_type_id d1 c = (d2, id2)"
        by simp_all
      from Some c1 have 1: "d1 = d" "id1 = pt_id r"
        by (auto simp add: get_personality_type_id_def)
      with Some c2 have 2: "d2 = d" "id2 = pt_id r"
        by (auto simp add: get_personality_type_id_def)
      have "\<exists>r \<in> set (personality_types d). pt_code r = c"
        using Some by (auto simp add: find_Some_iff)
      then show ?thesis
        using 1 2 by simp
    qed
  qed
  show ?thesis
    by (intro conjI found created twice)
qed

theorem registry_get_or_create_witness:
  "find (\<lambda>r. pt_code r = ''ESTJ'') (personality_types empty_db) = None \<and>
   get_personality_type_id empty_db ''ESTJ'' =
     (empty_db\<lparr>personality_types :=
        [\<lparr>pt_id = 1, pt_code = ''ESTJ'', pt_name = ''Type ESTJ'',
          pt_description = ''Personality type description''\<rparr>]\<rparr>, 1) \<and>
   get_personality_type_id
     (empty_db\<lparr>personality_types :=
        [\<lparr>pt_id = 1, pt_code = ''ESTJ'', pt_name = ''Type ESTJ'',
          pt_description = ''Personality type description''\<rparr>]\<rparr>) ''ESTJ'' =
     (empty_db\<lparr>personality_types :=
        [\<lparr>pt_id = 1, pt_code = ''ESTJ'', pt_name = ''Type ESTJ'',
          pt_description = ''Personality type description''\<rparr>]\<rparr>, 1)"
proof -
  let ?d1 = "empty_db\<lparr>personality_types :=
        [\<lparr>pt_id = 1, pt_code = ''ESTJ'', pt_name = ''Type ESTJ'',
          pt_description = ''Personality type description''\<rparr>]\<rparr>"
  have none: "find (\<lambda>r. pt_code r = ''ESTJ'') (personality_types empty_db) = None"
    by (simp add: empty_db_def)
  have first: "get_personality_type_id empty_db ''ESTJ'' = (?d1, 1)"
    by (simp add: get_personality_type_id_def empty_db_def next_rowid_def)
  obtain d2 id2 where second: "get_personality_type_id ?d1 ''ESTJ'' = (d2, id2)"
    by (cases "get_personality_type_id ?d1 ''ESTJ''")
  from registry_get_or_create [of "''ESTJ''" empty_db] first second
  have "id2 = 1 \<and> d2 = ?d1" by blast
  with none first second show ?thesis by simp
qed


section \<open>Properties of the submission handler\<close>

lemma py_getitem_InrD:
  "py_getitem v k = Inr x \<Longrightarrow> \<exists>kvs. v = JObj kvs \<and> map_of kvs k = Some x"
  by (cases v) (auto split: option.splits)

lemma all_fields_in_object:
  "all_fields_in fs (JObj sc) = Inr (\<forall>f \<in> set fs. map_of sc f \<noteq> None)"
  by (induction fs) auto

lemma check_scores_rejects:
  assumes "\<forall>f \<in> set fs. map_of sc f \<noteq> None"
      and "\<exists>f \<in> set fs. \<exists>r. number_at (JObj sc) f = Some r \<and> (r < 0 \<or> 10 < r)"
  shows "\<exists>g \<in> set fs. check_scores (JObj sc) fs = Inl (ValueError (invalid_score_message g))"
  using assms
proof (induction fs)
  case Nil
  then show ?case by simp
next
  case (Cons f fs)
  from Cons.prems(1) obtain v where v: "map_of sc f = Some v" by auto
  show ?case
  proof (cases "as_number v")
    case (Inl e)
    then show ?thesis by (simp add: v)
  next
    case (Inr r)
    show ?thesis
    proof (cases "r < 0 \<or> 10 < r")
      case True
      then show ?thesis by (auto simp add: v Inr)
    next
      case False
      have num: "is_int_or_float v"
        using Inr by (cases v) simp_all
      from False Inr v have "number_at (JObj sc) f = Some r" "\<not> (r < 0 \<or> 10 < r)"
        by (simp_all add: number_at_def)
      with Cons.prems(2) have
        "\<exists>f \<in> set fs. \<exists>r. number_at (JObj sc) f = Some r \<and> (r < 0 \<or> 10 < r)"
        by auto
      with Cons.IH Cons.prems(1) obtain g where
        "g \<in> set fs" "check_scores (JObj sc) fs = Inl (ValueError (invalid_score_message g))"
        by auto
      with False num show ?thesis
        by (auto simp add: v Inr)
    qed
  qed
qed

lemma submit_questionnaire_invalid:
  "sess_user_id sess \<noteq> None \<Longrightarrow> validate_questionnaire_input data = Inl e \<Longrightarrow>
   submit_questionnaire d sess data = (d, sess, error_response e)"
  by (auto simp add: submit_questionnaire_def)

text \<open>
  C5, as the code has it. For a logged-in session and every submission whose scores object
  lacks one of the four score fields or holds a number outside the range 0 to 10 under one
  of them, \<^verbatim>\<open>submit_questionnaire\<close> answers with the structured error
  \<^verbatim>\<open>{'status': 'error', 'message': msg}\<close>, where \<open>msg\<close> is the message of the validation
  error, with the HTTP status 500; the store and the session are returned unchanged, so no
  response row and no recommendation row is written.
\<close>

theorem submit_questionnaire_rejects_atomically:
  assumes "sess_user_id sess \<noteq> None"
      and "py_getitem data ''scores'' = Inr (JObj sc)"
      and "\<exists>f \<in> set required_fields.
             map_of sc f = None \<or>
             (\<exists>r. number_at (JObj sc) f = Some r \<and> (r < 0 \<or> 10 < r))"
  shows "\<exists>msg. submit_questionnaire d sess data = (d, sess, JsonError msg 500) \<and>
           (msg = ''Missing required fields in scores data'' \<or>
            (\<exists>f \<in> set required_fields. msg = invalid_score_message f))"
proof -
  from assms(2) obtain kvs where data: "data = JObj kvs" "map_of kvs ''scores'' = Some (JObj sc)"
    using py_getitem_InrD by blast
  show ?thesis
  proof (cases "\<forall>f \<in> set required_fields. map_of sc f \<noteq> None")
    case False
    then have "validate_questionnaire_input data =
                 Inl (ValueError ''Missing required fields in scores data'')"
      by (simp add: validate_questionnaire_input_def data all_fields_in_object)
    with assms(1) show ?thesis
      by (simp add: submit_questionnaire_invalid)
  next
    case True
    with assms(3) have
      "\<exists>f \<in> set required_fields. \<exists>r. number_at (JObj sc) f = Some r \<and> (r < 0 \<or> 10 < r)"
      by blast
    with True obtain g where g: "g \<in> set required_fields"
      "check_scores (JObj sc) required_fields = Inl (ValueError (invalid_score_message g))"
      using check_scores_rejects by blast
    from True g(2) have "validate_questionnaire_input data =
                 Inl (ValueError (invalid_score_message g))"
      by (simp add: validate_questionnaire_input_def data all_fields_in_object)
    with assms(1) have "submit_questionnaire d sess data =
        (d, sess, JsonError (invalid_score_message g) 500)"
      by (simp add: submit_questionnaire_invalid)
    with g(1) show ?thesis by blast
  qed
qed

theorem submit_questionnaire_rejects_atomically_witness:
  "sess_user_id sample_session \<noteq> None \<and>
   py_getitem out_of_range_submission ''scores'' =
     Inr (JObj [(''analytical_score'', JNum 8), (''creative_score'', JNum 3),
                (''social_score'', JNum 9), (''technical_score'', JNum 11)]) \<and>
   number_at (JObj [(''analytical_score'', JNum 8), (''creative_score'', JNum 3),
                (''social_score'', JNum 9), (''technical_score'', JNum 11)])
     ''technical_score'' = Some 11 \<and>
   (\<exists>msg. submit_questionnaire sample_db sample_session out_of_range_submission
            = (sample_db, sample_session, JsonError msg 500) \<and>
          (msg = ''Missing required fields in scores data'' \<or>
           (\<exists>f \<in> set required_fields. msg = invalid_score_message f)))"
proof -
  let ?sc = "[(''analytical_score'', JNum 8), (''creative_score'', JNum 3),
              (''social_score'', JNum 9), (''technical_score'', JNum 11)]"
  have l: "sess_user_id sample_session \<noteq> None"
    by (simp add: sample_session_def)
  have g: "py_getitem out_of_range_submission ''scores'' = Inr (JObj ?sc)"
    by (simp add: out_of_range_submission_def)
  have n: "number_at (JObj ?sc) ''technical_score'' = Some 11"
    by (simp add: number_at_def)
  have b: "\<exists>f \<in> set required_fields.
             map_of ?sc f = None \<or>
             (\<exists>r. number_at (JObj ?sc) f = Some r \<and> (r < 0 \<or> 10 < r))"
    using n by (auto simp add: required_fields_def)
  show ?thesis
    using l g n submit_questionnaire_rejects_atomically [OF l g b, of sample_db]
    by simp
qed

text \<open>
  C5 as the claim states it fails on the status: the submission with
  \<^verbatim>\<open>technical_score = 11\<close> is answered with the status 500, which is not a client
  error.
\<close>

theorem submit_questionnaire_status_counterexample:
  "submit_questionnaire sample_db sample_session out_of_range_submission =
     (sample_db, sample_session,
      JsonError ''Invalid score for technical_score. Must be number between 0 and 10'' 500) \<and>
   \<not> is_client_error
        (snd (snd (submit_questionnaire sample_db sample_session out_of_range_submission)))"
  by (simp add: submit_questionnaire_def sample_session_def out_of_range_submission_def
      validate_questionnaire_input_def required_fields_def invalid_score_message_def)


section \<open>Properties of the questionnaire flow\<close>

lemma map_of_dict_set: "map_of (dict_set kvs k v) = (map_of kvs)(k \<mapsto> v)"
  by (induction kvs) (auto simp add: fun_eq_iff)

lemma accumulator_store_answer:
  "accumulator (store_answer sess field v) = dict_set (accumulator sess) field v"
  by (simp add: store_answer_def accumulator_def)

lemma accumulator_initialised:
  "accumulator (sess\<lparr>sess_questionnaire_responses := Some (accumulator sess)\<rparr>) = accumulator sess"
  by (simp add: accumulator_def)

lemma questionnaire_next_step:
  assumes "sess_user_id sess = Some uid" and "uid \<noteq> 0"
      and "map_of kvs ''step'' = Some (JNum (of_int n))"
      and "question_field n = Some field"
  shows "questionnaire_next sess (JObj kvs) =
           (store_answer (sess\<lparr>sess_questionnaire_responses := Some (accumulator sess)\<rparr>) field
              (case map_of kvs field of None \<Rightarrow> JNull | Some v \<Rightarrow> v),
            JsonRedirect (if n = 4 then Recommendations else Questionnaire (Some (n + 1))))"
proof -
  from assms(4) consider "n = 1" "field = ''analytical''" | "n = 2" "field = ''creative''"
    | "n = 3" "field = ''social''" | "n = 4" "field = ''technical''"
    by (auto simp add: question_field_def split: if_splits)
  then show ?thesis
    by cases (simp_all add: questionnaire_next_def assms(1-3) Let_def)
qed

text \<open>
  C9. For a logged-in session, a POST to \<^verbatim>\<open>/questionnaire/next\<close> whose body names
  the step \<open>n\<close>, one of 1 to 4, stores the submitted value under the field of that step in
  the accumulator of the session, keeps every other answer and every other key of the
  session, and sends the client to step \<open>n + 1\<close>, or to the recommendations page, the
  complete state, when \<open>n = 4\<close>. The state after a transition is always the successor of the
  step answered, never an earlier one.
\<close>

theorem questionnaire_next_advances:
  assumes "sess_user_id sess = Some uid" and "uid \<noteq> 0"
      and "map_of kvs ''step'' = Some (JNum (of_int n))"
      and "question_field n = Some field"
  shows "\<exists>sess'.
           questionnaire_next sess (JObj kvs) =
             (sess', JsonRedirect (if n = 4 then Recommendations
                                   else Questionnaire (Some (n + 1)))) \<and>
           target_state (snd (questionnaire_next sess (JObj kvs))) =
             Some (if n = 4 then Complete else Step (n + 1)) \<and>
           map_of (accumulator sess') field =
             Some (case map_of kvs field of None \<Rightarrow> JNull | Some v \<Rightarrow> v) \<and>
           (\<forall>k. k \<noteq> field \<longrightarrow>
                map_of (accumulator sess') k = map_of (accumulator sess) k) \<and>
           sess_user_id sess' = sess_user_id sess \<and>
           sess_scores sess' = sess_scores sess \<and>
           sess_flashes sess' = sess_flashes sess"
proof -
  let ?v = "case map_of kvs field of None \<Rightarrow> JNull | Some v \<Rightarrow> v"
  let ?s1 = "sess\<lparr>sess_questionnaire_responses := Some (accumulator sess)\<rparr>"
  let ?s' = "store_answer ?s1 field ?v"
  have r: "questionnaire_next sess (JObj kvs) =
             (?s', JsonRedirect (if n = 4 then Recommendations
                                 else Questionnaire (Some (n + 1))))"
    using assms by (rule questionnaire_next_step)
  have t: "target_state (snd (questionnaire_next sess (JObj kvs))) =
             Some (if n = 4 then Complete else Step (n + 1))"
    by (simp add: r)
  have acc: "accumulator ?s' = dict_set (accumulator sess) field ?v"
    by (simp only: accumulator_store_answer accumulator_initialised)
  have stored: "map_of (accumulator ?s') field = Some ?v"
    by (simp add: acc map_of_dict_set)
  have kept: "\<forall>k. k \<noteq> field \<longrightarrow> map_of (accumulator ?s') k = map_of (accumulator sess) k"
    by (simp add: acc map_of_dict_set)
  have rest: "sess_user_id ?s' = sess_user_id sess" "sess_scores ?s' = sess_scores sess"
    "sess_flashes ?s' = sess_flashes sess"
    by (simp_all add: store_answer_def)
  show ?thesis
    using r t stored kept rest by blast
qed

theorem questionnaire_next_advances_witness:
  "sess_user_id session_after_step_one = Some 1 \<and> (1::int) \<noteq> 0 \<and>
   map_of [(''step'', JNum 2), (''creative'', JNum 7)] ''step'' = Some (JNum (of_int 2)) \<and>
   question_field 2 = Some ''creative'' \<and>
   questionnaire_next session_after_step_one step_two_answer =
     (session_after_step_one
        \<lparr>sess_questionnaire_responses :=
           Some [(''analytical'', JNum 8), (''creative'', JNum 7)]\<rparr>,
      JsonRedirect (Questionnaire (Some 3)))"
proof -
  have u: "sess_user_id session_after_step_one = Some 1"
    by (simp add: session_after_step_one_def)
  have z: "(1::int) \<noteq> 0" by simp
  have st: "map_of [(''step'', JNum 2), (''creative'', JNum 7)] ''step'' = Some (JNum (of_int 2))"
    by simp
  have q: "question_field 2 = Some ''creative''"
    by (simp add: question_field_def)
  from questionnaire_next_advances [OF u z st q]
  have "snd (questionnaire_next session_after_step_one
               (JObj [(''step'', JNum 2), (''creative'', JNum 7)]))
          = JsonRedirect (Questionnaire (Some 3))"
    by auto
  moreover have "fst (questionnaire_next session_after_step_one
               (JObj [(''step'', JNum 2), (''creative'', JNum 7)]))
          = session_after_step_one
              \<lparr>sess_questionnaire_responses :=
                 Some [(''analytical'', JNum 8), (''creative'', JNum 7)]\<rparr>"
    by (simp add: questionnaire_next_def session_after_step_one_def Let_def
        store_answer_def accumulator_def)
  ultimately show ?thesis
    using u st q by (simp add: step_two_answer_def prod_eq_iff)
qed


section \<open>Properties of the recommendations page\<close>













end
